theory Spec2Isabelle
  imports Complex_Main "HOL-Library.Log_Nat" "HOL-Library.Multiset"
begin

section \<open>The metric variables of \<^verbatim>\<open>src/var/rpc_var.h\<close>\<close>

text \<open>
  The header defines the kind tag \<^verbatim>\<open>RPCVarType\<close>, the base class \<^verbatim>\<open>RPCVar\<close>, the
  gauge \<^verbatim>\<open>GaugeVar\<close> (the only kind whose operations are defined in the header), the
  visitor interface \<^verbatim>\<open>RPCVarCollector\<close> and the two registries \<^verbatim>\<open>RPCVarLocal\<close> and
  \<^verbatim>\<open>RPCVarGlobal\<close>.  Objects are records, a method is a function from the object before
  the call to the object after it (paired with the returned value when there is one), and
  a pointer to an object is an address.
\<close>

subsection \<open>Kinds and the base class\<close>

datatype RPCVarType = VAR_GAUGE | VAR_COUNTER | VAR_HISTOGRAM | VAR_SUMMARY

fun type_string :: "RPCVarType \<Rightarrow> string" where
  "type_string VAR_GAUGE = ''gauge''"
| "type_string VAR_COUNTER = ''counter''"
| "type_string VAR_HISTOGRAM = ''histogram''"
| "type_string VAR_SUMMARY = ''summary''"

text \<open>
  The \<^verbatim>\<open>default\<close> branch of \<^verbatim>\<open>type_string\<close>, which returns the empty string for a value
  outside the enumeration, has no counterpart: the datatype has the four kinds only.

  A pointer (\<^verbatim>\<open>RPCVar *\<close>, \<^verbatim>\<open>RPCVarLocal *\<close>) is an address; \<open>0\<close> is the null pointer.
  The field \<^verbatim>\<open>help\<close> is written \<open>help'\<close>.
\<close>

type_synonym addr = nat

record RPCVar =
  name :: string
  help' :: string
  type :: RPCVarType

definition RPCVar_new :: "string \<Rightarrow> string \<Rightarrow> RPCVarType \<Rightarrow> RPCVar" where
  "RPCVar_new nm hp ty = \<lparr>name = nm, help' = hp, type = ty\<rparr>"

definition get_name :: "'a RPCVar_scheme \<Rightarrow> string" where
  "get_name v = name v"

definition get_help :: "'a RPCVar_scheme \<Rightarrow> string" where
  "get_help v = help' v"

definition get_type :: "'a RPCVar_scheme \<Rightarrow> RPCVarType" where
  "get_type v = type v"

definition get_type_str :: "'a RPCVar_scheme \<Rightarrow> string" where
  "get_type_str v = type_string (type v)"

subsection \<open>The gauge\<close>

text \<open>
  \<^verbatim>\<open>GaugeVar\<close> extends \<^verbatim>\<open>RPCVar\<close> with one \<^verbatim>\<open>double\<close>.  The operations are written for
  any type \<open>'d\<close> that has the constants and operators the code uses (\<open>0\<close>, \<open>1\<close>, \<open>+\<close>,
  \<open>-\<close>), with no law assumed of them: \<^verbatim>\<open>++this->data\<close> is \<open>data + 1\<close> and
  \<^verbatim>\<open>--this->data\<close> is \<open>data - 1\<close>.  The binary64 instance of \<open>'d\<close> is defined below.

  \<^verbatim>\<open>reduce\<close> receives an untyped pointer and a size.  The pointer is modelled by the
  \<^verbatim>\<open>double\<close> that \<^verbatim>\<open>*(double *)ptr\<close> reads through it, the size by a natural number;
  \<^verbatim>\<open>get_data\<close> returns the address of \<^verbatim>\<open>data\<close>, hence the double stored there, and
  \<^verbatim>\<open>sizeof(double)\<close> is 8, the size of a binary64 number.  \<^verbatim>\<open>create\<close> is declared in the
  header and defined elsewhere.
\<close>

record 'd GaugeVar = RPCVar +
  data :: 'd

definition sizeof_double :: nat where
  "sizeof_double = 8"

definition GaugeVar_new :: "string \<Rightarrow> string \<Rightarrow> 'd::zero GaugeVar" where
  "GaugeVar_new nm hp = \<lparr>name = nm, help' = hp, type = VAR_GAUGE, data = 0\<rparr>"

definition GaugeVar_increase :: "'d::{one,plus} GaugeVar \<Rightarrow> 'd GaugeVar" where
  "GaugeVar_increase g = g\<lparr>data := data g + 1\<rparr>"

definition GaugeVar_decrease :: "'d::{one,minus} GaugeVar \<Rightarrow> 'd GaugeVar" where
  "GaugeVar_decrease g = g\<lparr>data := data g - 1\<rparr>"

definition GaugeVar_get_size :: "'d GaugeVar \<Rightarrow> nat" where
  "GaugeVar_get_size g = sizeof_double"

definition GaugeVar_get_data :: "'d GaugeVar \<Rightarrow> 'd" where
  "GaugeVar_get_data g = data g"

definition GaugeVar_get :: "'d GaugeVar \<Rightarrow> 'd" where
  "GaugeVar_get g = data g"

definition GaugeVar_set :: "'d \<Rightarrow> 'd GaugeVar \<Rightarrow> 'd GaugeVar" where
  "GaugeVar_set var g = g\<lparr>data := var\<rparr>"

definition GaugeVar_reduce :: "'d::plus GaugeVar \<Rightarrow> 'd \<Rightarrow> nat \<Rightarrow> bool \<times> 'd GaugeVar" where
  "GaugeVar_reduce g ptr sz = (True, g\<lparr>data := data g + ptr\<rparr>)"

subsection \<open>The collector\<close>

text \<open>
  \<^verbatim>\<open>RPCVarCollector\<close> is an interface of eight callbacks.  A collector is a record of
  eight functions on a collector state \<open>'s\<close>; the metric argument is the address of the
  variable.  The recording collector keeps the list of the calls it has received, each
  with its arguments, in the order of arrival.
\<close>

record ('d, 's) RPCVarCollector =
  collect_gauge :: "addr \<Rightarrow> 'd \<Rightarrow> 's \<Rightarrow> 's"
  collect_counter_each :: "addr \<Rightarrow> string \<Rightarrow> 'd \<Rightarrow> 's \<Rightarrow> 's"
  collect_histogram_begin :: "addr \<Rightarrow> 's \<Rightarrow> 's"
  collect_histogram_each :: "addr \<Rightarrow> 'd \<Rightarrow> nat \<Rightarrow> 's \<Rightarrow> 's"
  collect_histogram_end :: "addr \<Rightarrow> 'd \<Rightarrow> nat \<Rightarrow> 's \<Rightarrow> 's"
  collect_summary_begin :: "addr \<Rightarrow> 's \<Rightarrow> 's"
  collect_summary_each :: "addr \<Rightarrow> 'd \<Rightarrow> 'd \<Rightarrow> 's \<Rightarrow> 's"
  collect_summary_end :: "addr \<Rightarrow> 'd \<Rightarrow> nat \<Rightarrow> 's \<Rightarrow> 's"

definition GaugeVar_collect ::
    "addr \<Rightarrow> 'd GaugeVar \<Rightarrow> ('d, 's) RPCVarCollector \<Rightarrow> 's \<Rightarrow> 's" where
  "GaugeVar_collect this g collector s = collect_gauge collector this (data g) s"

datatype 'd collector_call =
    Collect_gauge addr 'd
  | Collect_counter_each addr string 'd
  | Collect_histogram_begin addr
  | Collect_histogram_each addr 'd nat
  | Collect_histogram_end addr 'd nat
  | Collect_summary_begin addr
  | Collect_summary_each addr 'd 'd
  | Collect_summary_end addr 'd nat

definition recording_collector :: "('d, 'd collector_call list) RPCVarCollector" where
  "recording_collector =
     \<lparr>collect_gauge = (\<lambda>v x calls. calls @ [Collect_gauge v x]),
      collect_counter_each = (\<lambda>v l x calls. calls @ [Collect_counter_each v l x]),
      collect_histogram_begin = (\<lambda>v calls. calls @ [Collect_histogram_begin v]),
      collect_histogram_each = (\<lambda>v b c calls. calls @ [Collect_histogram_each v b c]),
      collect_histogram_end = (\<lambda>v x c calls. calls @ [Collect_histogram_end v x c]),
      collect_summary_begin = (\<lambda>v calls. calls @ [Collect_summary_begin v]),
      collect_summary_each = (\<lambda>v q x calls. calls @ [Collect_summary_each v q x]),
      collect_summary_end = (\<lambda>v x c calls. calls @ [Collect_summary_end v x c])\<rparr>"

subsection \<open>The registries\<close>

text \<open>
  \<^verbatim>\<open>RPCVarLocal\<close> holds a map from names to variable pointers, \<^verbatim>\<open>RPCVarGlobal\<close> the
  vector of the pointers to the local registries.  Each method body runs between
  \<^verbatim>\<open>mutex.lock()\<close> and \<^verbatim>\<open>mutex.unlock()\<close>; the model is sequential, a method is one
  step, and the mutex is not part of the state.

  \<^verbatim>\<open>RPCVarGlobal::get_instance\<close> returns the one static instance; the model passes it
  explicitly, in a process state that also holds the constructed \<^verbatim>\<open>RPCVarLocal\<close>
  objects by address.
\<close>

record RPCVarLocal =
  vars :: "string \<rightharpoonup> addr"

record RPCVarGlobal =
  local_vars :: "addr list"

definition RPCVarGlobal_new :: RPCVarGlobal where
  "RPCVarGlobal_new = \<lparr>local_vars = []\<rparr>"

definition RPCVarGlobal_add :: "addr \<Rightarrow> RPCVarGlobal \<Rightarrow> RPCVarGlobal" where
  "RPCVarGlobal_add var g = g\<lparr>local_vars := local_vars g @ [var]\<rparr>"

definition RPCVarLocal_add :: "string \<Rightarrow> addr \<Rightarrow> RPCVarLocal \<Rightarrow> RPCVarLocal" where
  "RPCVarLocal_add nm var l =
     (case vars l nm of
        None \<Rightarrow> l\<lparr>vars := (vars l)(nm \<mapsto> var)\<rparr>
      | Some it \<Rightarrow> l)"

record process =
  global :: RPCVarGlobal
  locals :: "addr \<rightharpoonup> RPCVarLocal"

definition process_start :: process where
  "process_start = \<lparr>global = RPCVarGlobal_new, locals = Map.empty\<rparr>"

definition RPCVarLocal_new :: "addr \<Rightarrow> process \<Rightarrow> process" where
  "RPCVarLocal_new this p =
     p\<lparr>locals := (locals p)(this \<mapsto> \<lparr>vars = Map.empty\<rparr>),
       global := RPCVarGlobal_add this (global p)\<rparr>"

subsection \<open>Sequences of calls on one variable\<close>

text \<open>
  A client holds a gauge at address \<open>this\<close>, the registry of its context and a recording
  collector.  \<open>call\<close> performs one public operation: a method of the gauge, a
  \<^verbatim>\<open>collect\<close> into the recording collector, or the registration of the gauge's address
  under a name (\<^verbatim>\<open>RPCVarLocal::add\<close>).
\<close>

datatype 'd gauge_call =
    Increase
  | Decrease
  | Set 'd
  | Reduce 'd nat
  | Collect
  | Add string

record 'd client =
  var :: "'d GaugeVar"
  registry :: RPCVarLocal
  collected :: "'d collector_call list"

fun call :: "addr \<Rightarrow> 'd::{one,plus,minus} gauge_call \<Rightarrow> 'd client \<Rightarrow> 'd client" where
  "call this Increase c = c\<lparr>var := GaugeVar_increase (var c)\<rparr>"
| "call this Decrease c = c\<lparr>var := GaugeVar_decrease (var c)\<rparr>"
| "call this (Set x) c = c\<lparr>var := GaugeVar_set x (var c)\<rparr>"
| "call this (Reduce ptr sz) c = c\<lparr>var := snd (GaugeVar_reduce (var c) ptr sz)\<rparr>"
| "call this Collect c =
     c\<lparr>collected := GaugeVar_collect this (var c) recording_collector (collected c)\<rparr>"
| "call this (Add nm) c = c\<lparr>registry := RPCVarLocal_add nm this (registry c)\<rparr>"

subsection \<open>Gauges of several contexts and their aggregate\<close>

text \<open>
  \<open>N\<close> contexts each hold a gauge of the same name.  A call names the context and is
  an \<^verbatim>\<open>increase\<close> or a \<^verbatim>\<open>decrease\<close> of that context's gauge.  The aggregate is what
  the export path computes: starting from an accumulator, each gauge's data
  (\<^verbatim>\<open>get_data\<close>, \<^verbatim>\<open>get_size\<close>) is reduced into it, in the order of the list.
\<close>

datatype gauge_op = Inc | Dec

fun apply_op :: "gauge_op \<Rightarrow> 'd::{one,plus,minus} GaugeVar \<Rightarrow> 'd GaugeVar" where
  "apply_op Inc g = GaugeVar_increase g"
| "apply_op Dec g = GaugeVar_decrease g"

definition apply_call ::
    "nat \<times> gauge_op \<Rightarrow> 'd::{one,plus,minus} GaugeVar list \<Rightarrow> 'd GaugeVar list" where
  "apply_call c gs =
     (if fst c < length gs then gs[fst c := apply_op (snd c) (gs ! fst c)] else gs)"

definition run_calls ::
    "(nat \<times> gauge_op) list \<Rightarrow> nat \<Rightarrow> string \<Rightarrow> string
      \<Rightarrow> 'd::{zero,one,plus,minus} GaugeVar list" where
  "run_calls calls N nm hp = fold apply_call calls (replicate N (GaugeVar_new nm hp))"

definition reduce_into :: "'d::plus GaugeVar \<Rightarrow> 'd GaugeVar \<Rightarrow> 'd GaugeVar" where
  "reduce_into g acc = snd (GaugeVar_reduce acc (GaugeVar_get_data g) (GaugeVar_get_size g))"

definition aggregate :: "'d::plus GaugeVar list \<Rightarrow> 'd GaugeVar \<Rightarrow> 'd GaugeVar" where
  "aggregate gs acc = fold reduce_into gs acc"

definition count_op :: "gauge_op \<Rightarrow> (nat \<times> gauge_op) list \<Rightarrow> nat" where
  "count_op opr calls = length (filter (\<lambda>c. snd c = opr) calls)"

text \<open>
  The counters the gauges stand for: one integer per context, a call adds or subtracts
  one.  \<open>calls_on i\<close> counts the calls on context \<open>i\<close>.
\<close>

definition op_delta :: "gauge_op \<Rightarrow> int" where
  "op_delta opr = (case opr of Inc \<Rightarrow> 1 | Dec \<Rightarrow> - 1)"

definition int_call :: "nat \<times> gauge_op \<Rightarrow> int list \<Rightarrow> int list" where
  "int_call c zs = (if fst c < length zs then zs[fst c := zs ! fst c + op_delta (snd c)] else zs)"

definition calls_on :: "nat \<Rightarrow> (nat \<times> gauge_op) list \<Rightarrow> nat" where
  "calls_on i calls = length (filter (\<lambda>c. fst c = i) calls)"

section \<open>The arithmetic of \<^verbatim>\<open>double\<close>\<close>

text \<open>
  The gauge's \<^verbatim>\<open>double\<close> is an IEEE 754 binary64 number.  Every finite binary64 number
  is an integer multiple of \<^verbatim>\<open>2^-1074\<close>, so a finite number is a sign and a magnitude
  counted in that unit; signed zeros, the infinities and NaN (without payload) complete
  the type.  A magnitude is representable when it has at most 53 significant bits and is
  below \<^verbatim>\<open>2^1024\<close>.

  A sum is the exact sum of the two operands, rounded to 53 significant bits, to nearest
  with ties to even (the default rounding mode); a rounded magnitude of \<^verbatim>\<open>2^1024\<close> or more
  overflows to infinity.  An exact sum of zero is \<open>+0\<close>, unless both operands are \<open>-0\<close>.
  Infinities of opposite signs add up to NaN, and NaN propagates.  A difference is the sum
  with the negated operand.

  \<open>round53 n\<close> rounds a magnitude: with \<open>k\<close> the number of bits of \<open>n\<close> beyond 53, it
  keeps the multiple \<open>q\<close> of \<open>2 ^ k\<close> below \<open>n\<close> when the remainder \<open>r\<close> is less than half of
  \<open>2 ^ k\<close>, or is half of it and \<open>q\<close> is even, and takes the next multiple otherwise.
\<close>

datatype double = Finite bool nat | Infinity bool | NaN

definition unit_exp :: nat where
  "unit_exp = 1074"

definition emax :: nat where
  "emax = 1024"

definition round53 :: "nat \<Rightarrow> nat" where
  "round53 n =
     (let k = floorlog 2 n - 53; q = n div 2 ^ k; r = n mod 2 ^ k
      in if 2 ^ k < 2 * r \<or> (2 * r = 2 ^ k \<and> odd q) then (q + 1) * 2 ^ k else q * 2 ^ k)"

definition round_double :: "bool \<Rightarrow> nat \<Rightarrow> double" where
  "round_double s n =
     (let r = round53 n in if 2 ^ (emax + unit_exp) \<le> r then Infinity s else Finite s r)"

definition signed :: "bool \<Rightarrow> nat \<Rightarrow> int" where
  "signed s m = (if s then - int m else int m)"

fun dadd :: "double \<Rightarrow> double \<Rightarrow> double" where
  "dadd NaN _ = NaN"
| "dadd _ NaN = NaN"
| "dadd (Infinity s) (Infinity t) = (if s = t then Infinity s else NaN)"
| "dadd (Infinity s) (Finite _ _) = Infinity s"
| "dadd (Finite _ _) (Infinity t) = Infinity t"
| "dadd (Finite s m) (Finite t n) =
     (let x = signed s m + signed t n
      in if x = 0 then Finite (s \<and> t) 0 else round_double (x < 0) (nat \<bar>x\<bar>))"

fun dneg :: "double \<Rightarrow> double" where
  "dneg NaN = NaN"
| "dneg (Infinity s) = Infinity (\<not> s)"
| "dneg (Finite s m) = Finite (\<not> s) m"

text \<open>The conversion of an integer to \<^verbatim>\<open>double\<close>, the real number a finite
  \<^verbatim>\<open>double\<close> stands for, and the largest integer not above it.\<close>

definition double_of_int :: "int \<Rightarrow> double" where
  "double_of_int z =
     (if z = 0 then Finite False 0 else round_double (z < 0) (nat \<bar>z\<bar> * 2 ^ unit_exp))"

definition valof :: "double \<Rightarrow> real option" where
  "valof d =
     (case d of
        Finite s m \<Rightarrow> Some ((if s then - 1 else 1) * real m / 2 ^ unit_exp)
      | Infinity s \<Rightarrow> None
      | NaN \<Rightarrow> None)"

definition floor_double :: "double \<Rightarrow> int" where
  "floor_double d =
     (case d of Finite s m \<Rightarrow> signed s m div 2 ^ unit_exp | Infinity s \<Rightarrow> 0 | NaN \<Rightarrow> 0)"

instantiation double :: "{zero, one, plus, uminus, minus}"
begin

definition zero_double :: double where
  "zero_double = Finite False 0"

definition one_double :: double where
  "one_double = Finite False (2 ^ unit_exp)"

definition plus_double :: "double \<Rightarrow> double \<Rightarrow> double" where
  "plus_double = dadd"

definition uminus_double :: "double \<Rightarrow> double" where
  "uminus_double = dneg"

definition minus_double :: "double \<Rightarrow> double \<Rightarrow> double" where
  "minus_double a b = dadd a (dneg b)"

instance ..

end

text \<open>
  The comparisons of \<^verbatim>\<open>double\<close>: every comparison with NaN is false, the two zeros are
  equal, and the infinities lie below and above every finite number.
\<close>

fun dle :: "double \<Rightarrow> double \<Rightarrow> bool" where
  "dle NaN _ = False"
| "dle _ NaN = False"
| "dle (Infinity s) (Infinity t) = (s \<or> \<not> t)"
| "dle (Infinity s) (Finite _ _) = s"
| "dle (Finite _ _) (Infinity t) = (\<not> t)"
| "dle (Finite s m) (Finite t n) = (signed s m \<le> signed t n)"

fun dlt :: "double \<Rightarrow> double \<Rightarrow> bool" where
  "dlt NaN _ = False"
| "dlt _ NaN = False"
| "dlt (Infinity s) (Infinity t) = (s \<and> \<not> t)"
| "dlt (Infinity s) (Finite _ _) = s"
| "dlt (Finite _ _) (Infinity t) = (\<not> t)"
| "dlt (Finite s m) (Finite t n) = (signed s m < signed t n)"

instantiation double :: ord
begin

definition less_eq_double :: "double \<Rightarrow> double \<Rightarrow> bool" where
  "less_eq_double = dle"

definition less_double :: "double \<Rightarrow> double \<Rightarrow> bool" where
  "less_double = dlt"

instance ..

end

section \<open>The counter, the histogram and the summary\<close>

text \<open>
  The header declares the fields of \<^verbatim>\<open>CounterVar\<close>, \<^verbatim>\<open>HistogramVar\<close> and \<^verbatim>\<open>SummaryVar\<close>,
  defines their \<^verbatim>\<open>get_size\<close>, \<^verbatim>\<open>get_data\<close> and field getters and the constructor of
  \<^verbatim>\<open>CounterVar\<close>, and only declares their other methods: the bodies of \<^verbatim>\<open>add\<close>,
  \<^verbatim>\<open>observe\<close>, \<^verbatim>\<open>reduce\<close> and \<^verbatim>\<open>collect\<close> are not in the header.  The records and the
  getters below follow the header.  Each of the other definitions is modelled from the
  words of the specification and says so.

  An \<^verbatim>\<open>unordered_map\<close> is an association list with distinct keys, whose order stands
  for the map's iteration order; a \<^verbatim>\<open>size_t\<close> is a natural number.  The fields \<^verbatim>\<open>data\<close>
  of \<^verbatim>\<open>CounterVar\<close> and \<^verbatim>\<open>sum\<close> and \<^verbatim>\<open>count\<close> of the histogram and the summary are written
  \<open>counter_data\<close>, \<open>histogram_sum\<close>, \<open>histogram_count\<close>, \<open>summary_sum\<close> and
  \<open>summary_count\<close>.  The estimator \<^verbatim>\<open>TimeWindowQuantiles\<close> and \<^verbatim>\<open>struct Quantile\<close> come from
  another header: the estimator's state is a type parameter \<open>'q\<close>, and its two operations,
  which read the clock, are parameters that take the clock's reading.
\<close>

type_synonym LABEL_MAP = "(string \<times> string) list"

record 'd CounterVar = RPCVar +
  counter_data :: "(string \<times> 'd GaugeVar) list"

record 'd HistogramVar = RPCVar +
  bucket_boundaries :: "'d list"
  bucket_counts :: "nat list"
  histogram_sum :: 'd
  histogram_count :: nat

text \<open>Modelled from the spec: \<^verbatim>\<open>struct Quantile\<close>, a requested quantile with its allowed
  error tolerance.\<close>

record 'd Quantile =
  quantile :: 'd
  error :: 'd

record ('d, 'q) SummaryVar = RPCVar +
  quantiles :: "'d Quantile list"
  summary_sum :: 'd
  summary_count :: nat
  quantile_size :: nat
  max_age :: nat
  age_buckets :: int
  quantile_values :: 'q
  quantile_out :: "'d list"

record ('d, 'q) TimeWindowQuantiles =
  insert_value :: "nat \<Rightarrow> 'd \<Rightarrow> 'q \<Rightarrow> 'q"
  get_quantile :: "nat \<Rightarrow> 'd \<Rightarrow> 'q \<Rightarrow> 'd"

text \<open>
  What the pointer of a \<^verbatim>\<open>reduce\<close> on one of these three kinds points to: the snapshot of
  another metric variable, of whatever kind.
\<close>

datatype ('d, 'q) snapshot =
    Gauge_snapshot "'d GaugeVar"
  | Counter_snapshot "'d CounterVar"
  | Histogram_snapshot "'d HistogramVar"
  | Summary_snapshot "('d, 'q) SummaryVar"

subsection \<open>The counter\<close>

definition CounterVar_new :: "string \<Rightarrow> string \<Rightarrow> 'd CounterVar" where
  "CounterVar_new nm hp = \<lparr>name = nm, help' = hp, type = VAR_COUNTER, counter_data = []\<rparr>"

definition CounterVar_get_size :: "'d CounterVar \<Rightarrow> nat" where
  "CounterVar_get_size c = length (counter_data c)"

definition CounterVar_get_data :: "'d CounterVar \<Rightarrow> (string \<times> 'd GaugeVar) list" where
  "CounterVar_get_data c = counter_data c"

text \<open>
  Modelled from the spec: \<^verbatim>\<open>CounterVar::add\<close>, whose body is not in the header.  The
  counter maps a label set, serialized to a canonical string, to a child gauge; the same
  label set always reaches the same child.  The serialization \<^verbatim>\<open>label_to_str\<close> is a
  parameter that may fail.  \<open>add\<close> finds the child of the label set or creates it, zero
  valued, and returns its key, which stands for the pointer to the child.  The spec does
  not name the child: here its name is the label string and its help is empty.
\<close>

definition CounterVar_add ::
    "(LABEL_MAP \<Rightarrow> string option) \<Rightarrow> LABEL_MAP \<Rightarrow> 'd::zero CounterVar
      \<Rightarrow> string option \<times> 'd CounterVar" where
  "CounterVar_add label_to_str labels c =
     (case label_to_str labels of
        None \<Rightarrow> (None, c)
      | Some str \<Rightarrow>
          (case map_of (counter_data c) str of
             Some child \<Rightarrow> (Some str, c)
           | None \<Rightarrow>
               (Some str, c\<lparr>counter_data := counter_data c @ [(str, GaugeVar_new str [])]\<rparr>)))"

text \<open>
  Modelled from the spec: \<^verbatim>\<open>CounterVar::reduce\<close>, whose body is not in the header.  It
  returns false, changing nothing, when the payload is not the snapshot of a counter.
  Otherwise the merge is per label set: the key spaces are united; for a key present in
  both, the other child's value is added to this child's; a key present in one only
  keeps its child unchanged.
\<close>

fun merge_child ::
    "string \<times> 'd::plus GaugeVar \<Rightarrow> (string \<times> 'd GaugeVar) list \<Rightarrow> (string \<times> 'd GaugeVar) list"
    where
  "merge_child (k, g) [] = [(k, g)]"
| "merge_child (k, g) ((k', g') # rest) =
     (if k = k'
      then (k', snd (GaugeVar_reduce g' (GaugeVar_get_data g) (GaugeVar_get_size g))) # rest
      else (k', g') # merge_child (k, g) rest)"

definition CounterVar_reduce ::
    "'d::plus CounterVar \<Rightarrow> ('d, 'q) snapshot \<Rightarrow> nat \<Rightarrow> bool \<times> 'd CounterVar" where
  "CounterVar_reduce c ptr sz =
     (case ptr of
        Counter_snapshot other \<Rightarrow>
          (True, c\<lparr>counter_data := fold merge_child (counter_data other) (counter_data c)\<rparr>)
      | _ \<Rightarrow> (False, c))"

text \<open>
  Modelled from the spec: \<^verbatim>\<open>CounterVar::collect\<close>, whose body is not in the header: one
  \<^verbatim>\<open>collect_counter_each(metric, labelString, value)\<close> per label-set entry.
\<close>

definition CounterVar_collect ::
    "addr \<Rightarrow> 'd CounterVar \<Rightarrow> ('d, 's) RPCVarCollector \<Rightarrow> 's \<Rightarrow> 's" where
  "CounterVar_collect this c collector s =
     fold (\<lambda>entry. collect_counter_each collector this (fst entry) (data (snd entry)))
       (counter_data c) s"

subsection \<open>The histogram\<close>

definition HistogramVar_get_size :: "'d HistogramVar \<Rightarrow> nat" where
  "HistogramVar_get_size h = length (bucket_counts h)"

definition HistogramVar_get_sum :: "'d HistogramVar \<Rightarrow> 'd" where
  "HistogramVar_get_sum h = histogram_sum h"

definition HistogramVar_get_count :: "'d HistogramVar \<Rightarrow> nat" where
  "HistogramVar_get_count h = histogram_count h"

definition HistogramVar_get_bucket_counts :: "'d HistogramVar \<Rightarrow> nat list" where
  "HistogramVar_get_bucket_counts h = bucket_counts h"

text \<open>
  Modelled from the spec: \<^verbatim>\<open>HistogramVar::observe\<close>, whose body is not in the header.
  \<open>bucket_counts[i]\<close> is the number of observations that are at most \<open>boundaries[i]\<close>,
  \<open>sum\<close> and \<open>count\<close> are the running sum and count: an observation counts in every
  bucket whose boundary it does not exceed, is added to the sum, and is counted.
\<close>

definition HistogramVar_observe :: "'d::{ord,plus} \<Rightarrow> 'd HistogramVar \<Rightarrow> 'd HistogramVar" where
  "HistogramVar_observe v h =
     h\<lparr>bucket_counts :=
         map (\<lambda>bc. if v \<le> fst bc then snd bc + 1 else snd bc)
           (zip (bucket_boundaries h) (bucket_counts h)),
       histogram_sum := histogram_sum h + v,
       histogram_count := histogram_count h + 1\<rparr>"

text \<open>
  Modelled from the spec: \<^verbatim>\<open>HistogramVar::reduce\<close>, whose body is not in the header.  The
  payload is compatible when it is the snapshot of a histogram with the same boundary
  sequence and as many bucket counts as this histogram, and the size is that number
  (\<^verbatim>\<open>get_size\<close>).  \<open>reduce\<close> validates this before it changes anything and returns false
  otherwise; the merge adds the bucket counts element-wise, the sums and the counts.
\<close>

definition HistogramVar_compatible :: "'d HistogramVar \<Rightarrow> ('d, 'q) snapshot \<Rightarrow> nat \<Rightarrow> bool" where
  "HistogramVar_compatible h ptr sz =
     (case ptr of
        Histogram_snapshot other \<Rightarrow>
          sz = length (bucket_counts h) \<and>
          length (bucket_counts other) = length (bucket_counts h) \<and>
          bucket_boundaries other = bucket_boundaries h
      | _ \<Rightarrow> False)"

definition HistogramVar_merge :: "'d::plus HistogramVar \<Rightarrow> ('d, 'q) snapshot \<Rightarrow> 'd HistogramVar" where
  "HistogramVar_merge h ptr =
     (case ptr of
        Histogram_snapshot other \<Rightarrow>
          h\<lparr>bucket_counts :=
              map (\<lambda>cc. fst cc + snd cc) (zip (bucket_counts h) (bucket_counts other)),
            histogram_sum := histogram_sum h + histogram_sum other,
            histogram_count := histogram_count h + histogram_count other\<rparr>
      | _ \<Rightarrow> h)"

definition HistogramVar_reduce ::
    "'d::plus HistogramVar \<Rightarrow> ('d, 'q) snapshot \<Rightarrow> nat \<Rightarrow> bool \<times> 'd HistogramVar" where
  "HistogramVar_reduce h ptr sz =
     (if HistogramVar_compatible h ptr sz then (True, HistogramVar_merge h ptr) else (False, h))"

text \<open>
  Modelled from the spec: \<^verbatim>\<open>HistogramVar::collect\<close>, whose body is not in the header:
  \<^verbatim>\<open>begin\<close>, one \<^verbatim>\<open>each(boundary, cumulativeCount)\<close> per bucket in the order of the
  boundaries, \<^verbatim>\<open>end(sum, count)\<close>.
\<close>

definition HistogramVar_collect ::
    "addr \<Rightarrow> 'd HistogramVar \<Rightarrow> ('d, 's) RPCVarCollector \<Rightarrow> 's \<Rightarrow> 's" where
  "HistogramVar_collect this h collector s =
     collect_histogram_end collector this (histogram_sum h) (histogram_count h)
       (fold (\<lambda>bc. collect_histogram_each collector this (fst bc) (snd bc))
          (zip (bucket_boundaries h) (bucket_counts h))
          (collect_histogram_begin collector this s))"

subsection \<open>The summary\<close>

definition SummaryVar_get_size :: "('d, 'q) SummaryVar \<Rightarrow> nat" where
  "SummaryVar_get_size s = length (quantiles s)"

definition SummaryVar_get_sum :: "('d, 'q) SummaryVar \<Rightarrow> 'd" where
  "SummaryVar_get_sum s = summary_sum s"

definition SummaryVar_get_count :: "('d, 'q) SummaryVar \<Rightarrow> nat" where
  "SummaryVar_get_count s = summary_count s"

definition SummaryVar_get_quantile_values :: "('d, 'q) SummaryVar \<Rightarrow> 'q" where
  "SummaryVar_get_quantile_values s = quantile_values s"

text \<open>
  Modelled from the spec: \<^verbatim>\<open>SummaryVar::observe\<close>, whose body is not in the header.  The
  summary holds a running sum, a running count and the estimator: an observation is
  inserted into the estimator, added to the sum, and counted.
\<close>

definition SummaryVar_observe ::
    "('d::plus, 'q) TimeWindowQuantiles \<Rightarrow> nat \<Rightarrow> 'd \<Rightarrow> ('d, 'q) SummaryVar
      \<Rightarrow> ('d, 'q) SummaryVar" where
  "SummaryVar_observe estimator now v s =
     s\<lparr>quantile_values := insert_value estimator now v (quantile_values s),
       summary_sum := summary_sum s + v,
       summary_count := summary_count s + 1\<rparr>"

text \<open>
  Modelled from the spec: \<^verbatim>\<open>SummaryVar::reduce\<close>, whose body is not in the header.  It
  returns false, changing nothing, when the payload is not the snapshot of a summary.
  Otherwise it adds the sums and the counts; the estimator is not merged.
\<close>

definition SummaryVar_reduce ::
    "('d::plus, 'q) SummaryVar \<Rightarrow> ('d, 'q) snapshot \<Rightarrow> nat \<Rightarrow> bool \<times> ('d, 'q) SummaryVar" where
  "SummaryVar_reduce s ptr sz =
     (case ptr of
        Summary_snapshot other \<Rightarrow>
          (True, s\<lparr>summary_sum := summary_sum s + summary_sum other,
                   summary_count := summary_count s + summary_count other\<rparr>)
      | _ \<Rightarrow> (False, s))"

text \<open>
  Modelled from the spec: \<^verbatim>\<open>SummaryVar::collect\<close>, whose body is not in the header:
  \<^verbatim>\<open>begin\<close>, one \<^verbatim>\<open>each(quantile, estimatedValue)\<close> per configured quantile in the order
  of the configuration, \<^verbatim>\<open>end(sum, count)\<close>.
\<close>

definition SummaryVar_collect ::
    "('d, 'q) TimeWindowQuantiles \<Rightarrow> nat \<Rightarrow> addr \<Rightarrow> ('d, 'q) SummaryVar
      \<Rightarrow> ('d, 's) RPCVarCollector \<Rightarrow> 's \<Rightarrow> 's" where
  "SummaryVar_collect estimator now this s collector st =
     collect_summary_end collector this (summary_sum s) (summary_count s)
       (fold (\<lambda>q. collect_summary_each collector this (quantile q)
                (get_quantile estimator now (quantile q) (quantile_values s)))
          (quantiles s)
          (collect_summary_begin collector this st))"

subsection \<open>Sequences of calls on a counter, a histogram or a summary\<close>

text \<open>
  As for the gauge: a variable at address \<open>this\<close> with a recording collector, and one
  public operation per call.
\<close>

datatype ('d, 'q) counter_call =
    Counter_add LABEL_MAP
  | Counter_reduce "('d, 'q) snapshot" nat
  | Counter_collect

datatype ('d, 'q) histogram_call =
    Histogram_observe 'd
  | Histogram_reduce "('d, 'q) snapshot" nat
  | Histogram_collect

datatype ('d, 'q) summary_call =
    Summary_observe nat 'd
  | Summary_reduce "('d, 'q) snapshot" nat
  | Summary_collect nat

fun call_counter ::
    "(LABEL_MAP \<Rightarrow> string option) \<Rightarrow> addr \<Rightarrow> ('d::{zero,plus}, 'q) counter_call
      \<Rightarrow> 'd CounterVar \<times> 'd collector_call list \<Rightarrow> 'd CounterVar \<times> 'd collector_call list"
    where
  "call_counter label_to_str this (Counter_add labels) (c, l) =
     (snd (CounterVar_add label_to_str labels c), l)"
| "call_counter label_to_str this (Counter_reduce ptr sz) (c, l) =
     (snd (CounterVar_reduce c ptr sz), l)"
| "call_counter label_to_str this Counter_collect (c, l) =
     (c, CounterVar_collect this c recording_collector l)"

fun call_histogram ::
    "addr \<Rightarrow> ('d::{ord,plus}, 'q) histogram_call
      \<Rightarrow> 'd HistogramVar \<times> 'd collector_call list
      \<Rightarrow> 'd HistogramVar \<times> 'd collector_call list" where
  "call_histogram this (Histogram_observe v) (h, l) = (HistogramVar_observe v h, l)"
| "call_histogram this (Histogram_reduce ptr sz) (h, l) = (snd (HistogramVar_reduce h ptr sz), l)"
| "call_histogram this Histogram_collect (h, l) =
     (h, HistogramVar_collect this h recording_collector l)"

fun call_summary ::
    "('d::plus, 'q) TimeWindowQuantiles \<Rightarrow> addr \<Rightarrow> ('d, 'q) summary_call
      \<Rightarrow> ('d, 'q) SummaryVar \<times> 'd collector_call list
      \<Rightarrow> ('d, 'q) SummaryVar \<times> 'd collector_call list" where
  "call_summary estimator this (Summary_observe now v) (s, l) =
     (SummaryVar_observe estimator now v s, l)"
| "call_summary estimator this (Summary_reduce ptr sz) (s, l) =
     (snd (SummaryVar_reduce s ptr sz), l)"
| "call_summary estimator this (Summary_collect now) (s, l) =
     (s, SummaryVar_collect estimator now this s recording_collector l)"

section \<open>Properties\<close>

subsection \<open>Exact sums of small integers\<close>

text \<open>
  A magnitude that is a multiple of the unit of its last significant bit is its own
  rounding; so is every integer up to \<open>2 ^ 53\<close>, and the sum of two integers is exact
  as long as it stays within that range.
\<close>

lemma round53_exact: "2 ^ (floorlog 2 n - 53) dvd n \<Longrightarrow> round53 n = n"
  by (auto simp: round53_def Let_def dvd_eq_mod_eq_0)

lemma round53_int_exact:
  assumes "c \<le> 2 ^ 53"
  shows "round53 (c * 2 ^ unit_exp) = c * 2 ^ unit_exp"
proof (cases "c = 0")
  case True
  then show ?thesis by (simp add: round53_def)
next
  case False
  then have fl: "floorlog 2 (c * 2 ^ unit_exp) = floorlog 2 c + unit_exp"
    by (simp add: floorlog_power)
  show ?thesis
  proof (cases "c < 2 ^ 53")
    case True
    then have "floorlog 2 c \<le> 53" by (simp add: floorlog_le_iff)
    then have "floorlog 2 c + unit_exp - 53 \<le> unit_exp" by simp
    then have "(2::nat) ^ (floorlog 2 c + unit_exp - 53) dvd 2 ^ unit_exp"
      by (rule le_imp_power_dvd)
    then have "2 ^ (floorlog 2 (c * 2 ^ unit_exp) - 53) dvd c * 2 ^ unit_exp"
      unfolding fl by (rule dvd_mult)
    then show ?thesis by (rule round53_exact)
  next
    case False
    with assms have c: "c = 2 ^ 53" by simp
    have "floorlog 2 (2 ^ 53 :: nat) = 54"
      using floorlog_power [of "1::nat" 2 53] by (simp add: floorlog_def)
    then have "floorlog 2 (c * 2 ^ unit_exp) - 53 = unit_exp + 1"
      unfolding fl c by simp
    moreover have "(2::nat) ^ (unit_exp + 1) dvd c * 2 ^ unit_exp"
    proof -
      have "(2::nat) ^ 1 dvd 2 ^ 53" by (rule le_imp_power_dvd) simp
      then have "(2::nat) ^ 1 * 2 ^ unit_exp dvd 2 ^ 53 * 2 ^ unit_exp" by (rule mult_dvd_mono) simp
      then show ?thesis unfolding c by (simp add: mult.commute)
    qed
    ultimately show ?thesis by (simp add: round53_exact)
  qed
qed

lemma round_double_int_exact:
  assumes "c \<le> 2 ^ 53"
  shows "round_double s (c * 2 ^ unit_exp) = Finite s (c * 2 ^ unit_exp)"
proof -
  have "c * 2 ^ unit_exp \<le> 2 ^ 53 * 2 ^ unit_exp" using assms by simp
  also have "\<dots> = (2::nat) ^ (53 + unit_exp)" by (simp only: power_add)
  also have "\<dots> < 2 ^ (emax + unit_exp)" by (rule power_strict_increasing) (simp_all add: emax_def)
  finally show ?thesis by (simp add: round_double_def round53_int_exact [OF assms] Let_def)
qed


lemma double_of_int_exact:
  assumes "\<bar>z\<bar> \<le> 2 ^ 53"
  shows "double_of_int z = Finite (z < 0) (nat \<bar>z\<bar> * 2 ^ unit_exp)"
proof -
  from assms have "nat \<bar>z\<bar> \<le> 2 ^ 53" by (simp add: nat_le_iff)
  then show ?thesis by (simp add: double_of_int_def round_double_int_exact)
qed

lemma valof_double_of_int:
  assumes "\<bar>z\<bar> \<le> 2 ^ 53"
  shows "valof (double_of_int z) = Some (of_int z)"
  by (simp add: double_of_int_exact [OF assms] valof_def)

lemma signed_int: "signed (z < 0) (nat \<bar>z\<bar> * 2 ^ unit_exp) = z * 2 ^ unit_exp"
  by (simp add: signed_def nat_mult_distrib[symmetric] abs_mult)

lemma dadd_double_of_int:
  assumes "\<bar>a\<bar> \<le> 2 ^ 53" and "\<bar>b\<bar> \<le> 2 ^ 53" and "\<bar>a + b\<bar> \<le> 2 ^ 53"
  shows "dadd (double_of_int a) (double_of_int b) = double_of_int (a + b)"
proof -
  have sum: "signed (a < 0) (nat \<bar>a\<bar> * 2 ^ unit_exp) + signed (b < 0) (nat \<bar>b\<bar> * 2 ^ unit_exp)
      = (a + b) * 2 ^ unit_exp"
    by (simp only: signed_int distrib_right)
  have abs: "nat \<bar>(a + b) * 2 ^ unit_exp\<bar> = nat \<bar>a + b\<bar> * 2 ^ unit_exp"
    by (simp add: abs_mult nat_mult_distrib)
  have neg: "((a + b) * 2 ^ unit_exp < 0) = (a + b < 0)"
    by (simp add: mult_less_0_iff)
  show ?thesis
  proof (cases "a + b = 0")
    case True
    then have "\<not> (a < 0 \<and> b < 0)" by arith
    with True show ?thesis
      by (simp only: double_of_int_exact [OF assms(1)] double_of_int_exact [OF assms(2)]
            dadd.simps sum Let_def) (simp add: double_of_int_def)
  next
    case False
    then show ?thesis
      by (simp only: double_of_int_exact [OF assms(1)] double_of_int_exact [OF assms(2)]
            dadd.simps sum Let_def abs neg) (simp add: double_of_int_def)
  qed
qed

lemma floorlog_tie: "floorlog 2 (2 ^ 53 + 1 :: nat) = 54"
proof (rule antisym)
  show "floorlog 2 (2 ^ 53 + 1 :: nat) \<le> 54"
    by (rule floorlog_leI) simp_all
  have "Suc 53 \<le> floorlog 2 (2 ^ 53 + 1 :: nat)"
    by (rule floorlog_ge_SucI) simp_all
  then show "54 \<le> floorlog 2 (2 ^ 53 + 1 :: nat)" by simp
qed


lemma round53_tie: "round53 ((2 ^ 53 + 1) * 2 ^ unit_exp) = 2 ^ 53 * 2 ^ unit_exp"
proof -
  let ?n = "(2 ^ 53 + 1) * 2 ^ unit_exp :: nat"
  have "floorlog 2 ?n = floorlog 2 (2 ^ 53 + 1 :: nat) + unit_exp"
    by (rule floorlog_power) simp_all
  then have "floorlog 2 ?n = 54 + unit_exp"
    by (simp only: floorlog_tie)
  then have k: "floorlog 2 ?n - 53 = unit_exp + 1"
    by simp
  have p: "(2::nat) ^ (unit_exp + 1) = 2 * 2 ^ unit_exp" by simp
  have q: "?n div 2 ^ (unit_exp + 1) = 2 ^ 52"
    unfolding p using div_mult_mult2 [of "2 ^ unit_exp :: nat" "2 ^ 53 + 1" 2] by simp
  have r: "?n mod 2 ^ (unit_exp + 1) = 2 ^ unit_exp"
    unfolding p using mod_mult_mult2 [of "2 ^ 53 + 1 :: nat" "2 ^ unit_exp" 2] by simp
  show ?thesis
    unfolding round53_def k Let_def q r by (simp only: p) simp
qed



subsection \<open>The gauge\<close>

text \<open>
  Claim C9.  A gauge that has just been constructed holds zero: \<^verbatim>\<open>get()\<close> returns \<open>0\<close>
  before any \<^verbatim>\<open>increase\<close>, \<^verbatim>\<open>decrease\<close>, \<^verbatim>\<open>set\<close> or \<^verbatim>\<open>reduce\<close>.
\<close>

theorem GaugeVar_new_zero: "GaugeVar_get (GaugeVar_new nm hp) = 0"
  by (simp add: GaugeVar_get_def GaugeVar_new_def)

text \<open>
  Claim C10.  Immediately after \<^verbatim>\<open>g.set(v)\<close> the call \<^verbatim>\<open>g.get()\<close> returns \<open>v\<close>, whatever
  the gauge held before.
\<close>

theorem GaugeVar_set_get: "GaugeVar_get (GaugeVar_set v g) = v"
  by (simp add: GaugeVar_get_def GaugeVar_set_def)

text \<open>
  Claim C1.  For every gauge \<open>g\<close>, every payload that points to a double \<open>d\<close> and every
  size argument, \<^verbatim>\<open>g.reduce(ptr, sz)\<close> returns true and leaves the gauge holding the old
  value plus \<open>d\<close>: the merge is a sum, not a replacement.
\<close>

theorem GaugeVar_reduce_sum:
  "fst (GaugeVar_reduce g d sz) = True \<and>
   GaugeVar_get (snd (GaugeVar_reduce g d sz)) = GaugeVar_get g + d"
  by (simp add: GaugeVar_reduce_def GaugeVar_get_def)




text \<open>
  Claim C6.  \<^verbatim>\<open>g.collect(collector)\<close> is one call of the collector's \<^verbatim>\<open>collect_gauge\<close>
  with the gauge and its value, and nothing else: on any collector the effect is that of
  this one callback, and a recording collector has received exactly one more call,
  \<^verbatim>\<open>collect_gauge(g, v)\<close>.  A gauge set to \<open>v\<close> (for instance \<open>3.5\<close>) makes an empty
  recording collector hold the single call \<^verbatim>\<open>collect_gauge(g, v)\<close>.
\<close>

theorem GaugeVar_collect_one_call:
  "GaugeVar_collect this g collector s = collect_gauge collector this (GaugeVar_get g) s \<and>
   GaugeVar_collect this g recording_collector calls = calls @ [Collect_gauge this (GaugeVar_get g)] \<and>
   GaugeVar_collect this (GaugeVar_set v g) recording_collector [] = [Collect_gauge this v]"
  by (simp add: GaugeVar_collect_def GaugeVar_get_def GaugeVar_set_def recording_collector_def)

subsection \<open>Name and kind\<close>

lemma call_name_type:
  "name (var (call this c cl)) = name (var cl) \<and> type (var (call this c cl)) = type (var cl)"
  by (cases c)
    (simp_all add: GaugeVar_increase_def GaugeVar_decrease_def GaugeVar_set_def GaugeVar_reduce_def)

lemma fold_call_name_type:
  "name (var (fold (call this) cs cl)) = name (var cl) \<and>
   type (var (fold (call this) cs cl)) = type (var cl)"
  by (induction cs arbitrary: cl) (simp_all add: call_name_type)

lemma call_counter_name_type:
  "name (fst (call_counter lts this c st)) = name (fst st) \<and>
   type (fst (call_counter lts this c st)) = type (fst st)"
  by (cases c; cases st)
    (simp_all add: CounterVar_add_def CounterVar_reduce_def split: option.splits snapshot.splits)

lemma fold_call_counter_name_type:
  "name (fst (fold (call_counter lts this) cs st)) = name (fst st) \<and>
   type (fst (fold (call_counter lts this) cs st)) = type (fst st)"
  by (induction cs arbitrary: st) (simp_all add: call_counter_name_type)

lemma call_histogram_name_type:
  "name (fst (call_histogram this c st)) = name (fst st) \<and>
   type (fst (call_histogram this c st)) = type (fst st)"
  by (cases c; cases st)
    (simp_all add: HistogramVar_observe_def HistogramVar_reduce_def HistogramVar_merge_def
      split: snapshot.splits)

lemma fold_call_histogram_name_type:
  "name (fst (fold (call_histogram this) cs st)) = name (fst st) \<and>
   type (fst (fold (call_histogram this) cs st)) = type (fst st)"
  by (induction cs arbitrary: st) (simp_all add: call_histogram_name_type)

lemma call_summary_name_type:
  "name (fst (call_summary est this c st)) = name (fst st) \<and>
   type (fst (call_summary est this c st)) = type (fst st)"
  by (cases c; cases st)
    (simp_all add: SummaryVar_observe_def SummaryVar_reduce_def split: snapshot.splits)

lemma fold_call_summary_name_type:
  "name (fst (fold (call_summary est this) cs st)) = name (fst st) \<and>
   type (fst (fold (call_summary est this) cs st)) = type (fst st)"
  by (induction cs arbitrary: st) (simp_all add: call_summary_name_type)

text \<open>
  Claim C7.  After any sequence of public operations on a metric variable, \<^verbatim>\<open>get_name()\<close>
  and \<^verbatim>\<open>get_type()\<close> return what they returned when the variable was constructed: the
  name given to the constructor and, for a gauge and a counter, whose constructors the
  header defines, the kinds \<^verbatim>\<open>VAR_GAUGE\<close> and \<^verbatim>\<open>VAR_COUNTER\<close>.  The operations are those of
  each kind: \<^verbatim>\<open>increase\<close>, \<^verbatim>\<open>decrease\<close>, \<^verbatim>\<open>set\<close>, \<^verbatim>\<open>reduce\<close>, \<^verbatim>\<open>collect\<close> and the
  registration with \<^verbatim>\<open>RPCVarLocal::add\<close> for a gauge (the header's code); \<^verbatim>\<open>add\<close>,
  \<^verbatim>\<open>reduce\<close>, \<^verbatim>\<open>collect\<close> for a counter and \<^verbatim>\<open>observe\<close>, \<^verbatim>\<open>reduce\<close>, \<^verbatim>\<open>collect\<close> for a
  histogram and a summary (modelled from the spec).
\<close>

theorem name_and_type_fixed_at_construction:
  "get_name (var (fold (call this) cs \<lparr>var = GaugeVar_new nm hp, registry = r, collected = l\<rparr>)) = nm \<and>
   get_type (var (fold (call this) cs \<lparr>var = GaugeVar_new nm hp, registry = r, collected = l\<rparr>))
     = VAR_GAUGE \<and>
   get_name (var (fold (call this) cs cl)) = get_name (var cl) \<and>
   get_type (var (fold (call this) cs cl)) = get_type (var cl) \<and>
   get_name (fst (fold (call_counter label_to_str this) ccs (CounterVar_new nm hp, l))) = nm \<and>
   get_type (fst (fold (call_counter label_to_str this) ccs (CounterVar_new nm hp, l)))
     = VAR_COUNTER \<and>
   get_name (fst (fold (call_counter label_to_str this) ccs (c, l))) = get_name c \<and>
   get_type (fst (fold (call_counter label_to_str this) ccs (c, l))) = get_type c \<and>
   get_name (fst (fold (call_histogram this) hcs (h, l))) = get_name h \<and>
   get_type (fst (fold (call_histogram this) hcs (h, l))) = get_type h \<and>
   get_name (fst (fold (call_summary estimator this) scs (s, l))) = get_name s \<and>
   get_type (fst (fold (call_summary estimator this) scs (s, l))) = get_type s"
  by (simp add: get_name_def get_type_def fold_call_name_type fold_call_counter_name_type
      fold_call_histogram_name_type fold_call_summary_name_type GaugeVar_new_def CounterVar_new_def)

subsection \<open>The registries\<close>

text \<open>
  Claim C4.  \<^verbatim>\<open>add(name, w)\<close> on a local registry: when the name is already mapped to
  \<open>v\<close>, the registry is unchanged, so the name still maps to \<open>v\<close> and \<open>w\<close> is not stored;
  when the name is absent, it maps to \<open>w\<close> afterwards; every other name maps to what it
  mapped to before.
\<close>

theorem RPCVarLocal_add_first_writer_wins:
  "(vars l nm = Some v \<longrightarrow> RPCVarLocal_add nm w l = l \<and> vars (RPCVarLocal_add nm w l) nm = Some v) \<and>
   (vars l nm = None \<longrightarrow> vars (RPCVarLocal_add nm w l) nm = Some w) \<and>
   (\<forall>n. n \<noteq> nm \<longrightarrow> vars (RPCVarLocal_add nm w l) n = vars l n)"
  by (simp add: RPCVarLocal_add_def split: option.split)

theorem RPCVarLocal_add_first_writer_wins_witness:
  "vars \<lparr>vars = [''qps'' \<mapsto> 1]\<rparr> ''qps'' = Some 1 \<and>
   vars (RPCVarLocal_add ''qps'' 2 \<lparr>vars = [''qps'' \<mapsto> 1]\<rparr>) ''qps'' = Some 1 \<and>
   vars \<lparr>vars = [''qps'' \<mapsto> 1]\<rparr> ''latency'' = None \<and>
   vars (RPCVarLocal_add ''latency'' 2 \<lparr>vars = [''qps'' \<mapsto> 1]\<rparr>) ''latency'' = Some 2 \<and>
   ''qps'' \<noteq> ''latency'' \<and>
   vars (RPCVarLocal_add ''latency'' 2 \<lparr>vars = [''qps'' \<mapsto> 1]\<rparr>) ''qps'' = Some 1"
  using RPCVarLocal_add_first_writer_wins [of "\<lparr>vars = [''qps'' \<mapsto> 1]\<rparr>" "''qps''" 1 2]
    RPCVarLocal_add_first_writer_wins [of "\<lparr>vars = [''qps'' \<mapsto> 1]\<rparr>" "''latency''" 1 2]
  by simp

lemma fold_RPCVarLocal_new_enumerable:
  "dom (locals p) \<subseteq> set (local_vars (global p)) \<Longrightarrow>
   dom (locals (fold RPCVarLocal_new ps p)) \<subseteq> set (local_vars (global (fold RPCVarLocal_new ps p)))"
proof (induction ps arbitrary: p)
  case Nil
  then show ?case by simp
next
  case (Cons a ps)
  have "dom (locals (RPCVarLocal_new a p)) \<subseteq> set (local_vars (global (RPCVarLocal_new a p)))"
    using Cons.prems by (auto simp: RPCVarLocal_new_def RPCVarGlobal_add_def)
  then show ?case using Cons.IH by simp
qed

text \<open>
  Claim C8.  The constructor of \<^verbatim>\<open>RPCVarLocal\<close> registers the new registry with
  \<^verbatim>\<open>RPCVarGlobal\<close>: right after the construction the global \<^verbatim>\<open>local_vars\<close> is the former
  list with the new registry's address appended, the new registry is empty, and after any
  number of constructions every constructed registry is in \<^verbatim>\<open>local_vars\<close>.
\<close>

theorem RPCVarLocal_new_registers:
  "local_vars (global (RPCVarLocal_new this p)) = local_vars (global p) @ [this] \<and>
   locals (RPCVarLocal_new this p) this = Some \<lparr>vars = Map.empty\<rparr> \<and>
   dom (locals (fold RPCVarLocal_new ps process_start))
     \<subseteq> set (local_vars (global (fold RPCVarLocal_new ps process_start)))"
proof -
  have "dom (locals process_start) \<subseteq> set (local_vars (global process_start))"
    by (simp add: process_start_def)
  then show ?thesis
    by (simp add: fold_RPCVarLocal_new_enumerable) (simp add: RPCVarLocal_new_def RPCVarGlobal_add_def)
qed

subsection \<open>Aggregating the gauges of several contexts\<close>

text \<open>
  As long as no gauge has seen more than \<open>2 ^ 53\<close> calls, the gauges hold exactly the
  integer counters; as long as the sum of the magnitudes stays within \<open>2 ^ 53\<close>, so does
  every partial sum of the aggregation, in whatever order.
\<close>

lemma double_of_int_0: "double_of_int 0 = 0"
  by (simp add: double_of_int_def zero_double_def)

lemma double_of_int_1: "double_of_int 1 = 1"
  by (simp add: double_of_int_exact one_double_def)

lemma dneg_double_of_int:
  assumes "\<bar>z\<bar> \<le> 2 ^ 53" and "z \<noteq> 0"
  shows "dneg (double_of_int z) = double_of_int (- z)"
  using assms by (auto simp add: double_of_int_exact)

lemma double_of_int_plus:
  assumes "\<bar>a\<bar> \<le> 2 ^ 53" and "\<bar>b\<bar> \<le> 2 ^ 53" and "\<bar>a + b\<bar> \<le> 2 ^ 53"
  shows "double_of_int a + double_of_int b = double_of_int (a + b)"
  using assms by (simp add: plus_double_def dadd_double_of_int)

lemma double_of_int_apply_op:
  assumes "\<bar>z\<bar> \<le> 2 ^ 53" and "\<bar>z + op_delta opr\<bar> \<le> 2 ^ 53"
  shows "data (apply_op opr (g\<lparr>data := double_of_int z\<rparr>)) = double_of_int (z + op_delta opr)"
proof (cases opr)
  case Inc
  with assms show ?thesis
    using double_of_int_plus [of z 1]
    by (simp add: GaugeVar_increase_def op_delta_def double_of_int_1)
next
  case Dec
  have "dneg 1 = double_of_int (- 1)"
    using dneg_double_of_int [of 1] by (simp add: double_of_int_1)
  with Dec assms show ?thesis
    using dadd_double_of_int [of z "- 1"]
    by (simp add: GaugeVar_decrease_def op_delta_def minus_double_def)
qed

lemma floor_double_of_int:
  assumes "\<bar>z\<bar> \<le> 2 ^ 53"
  shows "floor_double (double_of_int z) = z"
  by (simp add: double_of_int_exact [OF assms] floor_double_def signed_int)


lemma aggregate_data:
  "data (aggregate gs acc) = fold (\<lambda>x a. a + x) (map data gs) (data acc)"
  by (induction gs arbitrary: acc)
    (simp_all add: aggregate_def reduce_into_def GaugeVar_reduce_def GaugeVar_get_data_def)

lemma fold_plus_double_of_int:
  assumes "\<bar>a\<bar> + sum_list (map abs zs) \<le> 2 ^ 53"
  shows "fold (\<lambda>x a. a + x) (map double_of_int zs) (double_of_int a)
    = double_of_int (a + sum_list zs)"
  using assms
proof (induction zs arbitrary: a)
  case Nil
  then show ?case by simp
next
  case (Cons z zs)
  have nn: "0 \<le> sum_list (map abs zs)" by (rule sum_list_nonneg) auto
  from Cons.prems nn have b: "\<bar>a\<bar> \<le> 2 ^ 53" "\<bar>z\<bar> \<le> 2 ^ 53" "\<bar>a + z\<bar> \<le> 2 ^ 53"
    by simp_all
  from Cons.prems have "\<bar>a + z\<bar> + sum_list (map abs zs) \<le> 2 ^ 53" by simp
  then have "fold (\<lambda>x a. a + x) (map double_of_int zs) (double_of_int (a + z))
    = double_of_int (a + z + sum_list zs)"
    by (rule Cons.IH)
  then show ?case
    by (simp add: double_of_int_plus [OF b] add.assoc)
qed

lemma length_int_call: "length (int_call c zs) = length zs"
  by (simp add: int_call_def)

lemma apply_call_refines:
  assumes "map data gs = map double_of_int zs"
    and "\<forall>i < length zs. \<bar>zs ! i\<bar> + int (calls_on i (c # cs)) \<le> 2 ^ 53"
  shows "map data (apply_call c gs) = map double_of_int (int_call c zs)
    \<and> (\<forall>i < length zs. \<bar>int_call c zs ! i\<bar> + int (calls_on i cs) \<le> 2 ^ 53)"
proof -
  from assms(1) have len: "length gs = length zs"
    by (metis length_map)
  show ?thesis
  proof (cases "fst c < length zs")
    case False
    with assms len show ?thesis
      by (auto simp: apply_call_def int_call_def calls_on_def)
  next
    case True
    let ?j = "fst c"
    from assms(2) True have bj: "\<bar>zs ! ?j\<bar> + int (calls_on ?j (c # cs)) \<le> 2 ^ 53"
      by blast
    have cj: "calls_on ?j (c # cs) = Suc (calls_on ?j cs)"
      by (simp add: calls_on_def)
    have d: "\<bar>op_delta (snd c)\<bar> = 1"
      by (cases "snd c") (simp_all add: op_delta_def)
    from bj cj d have b1: "\<bar>zs ! ?j\<bar> \<le> 2 ^ 53"
      and b2: "\<bar>zs ! ?j + op_delta (snd c)\<bar> + int (calls_on ?j cs) \<le> 2 ^ 53"
      by linarith+
    then have b3: "\<bar>zs ! ?j + op_delta (snd c)\<bar> \<le> 2 ^ 53" by linarith
    from assms(1) True len have "data (gs ! ?j) = double_of_int (zs ! ?j)"
      by (metis nth_map)
    then have "gs ! ?j = (gs ! ?j)\<lparr>data := double_of_int (zs ! ?j)\<rparr>"
      by simp
    then have "data (apply_op (snd c) (gs ! ?j)) = double_of_int (zs ! ?j + op_delta (snd c))"
      using double_of_int_apply_op [OF b1 b3, of "gs ! ?j"] by simp
    with assms(1) True len
    have m: "map data (apply_call c gs) = map double_of_int (int_call c zs)"
      by (simp add: apply_call_def int_call_def map_update)
    have "\<bar>int_call c zs ! i\<bar> + int (calls_on i cs) \<le> 2 ^ 53" if "i < length zs" for i
    proof (cases "i = ?j")
      case True
      with b2 that show ?thesis by (simp add: int_call_def)
    next
      case False
      then have "calls_on i (c # cs) = calls_on i cs" by (simp add: calls_on_def)
      with assms(2) that False show ?thesis by (auto simp add: int_call_def)
    qed
    with m show ?thesis by blast
  qed
qed

lemma fold_apply_call_refines:
  assumes "map data gs = map double_of_int zs"
    and "\<forall>i < length zs. \<bar>zs ! i\<bar> + int (calls_on i cs) \<le> 2 ^ 53"
  shows "map data (fold apply_call cs gs) = map double_of_int (fold int_call cs zs)
    \<and> (\<forall>i < length zs. \<bar>fold int_call cs zs ! i\<bar> \<le> 2 ^ 53)"
  using assms
proof (induction cs arbitrary: gs zs)
  case Nil
  then show ?case by (simp add: calls_on_def)
next
  case (Cons c cs)
  from apply_call_refines [OF Cons.prems]
  have 1: "map data (apply_call c gs) = map double_of_int (int_call c zs)"
    and 2: "\<forall>i < length (int_call c zs). \<bar>int_call c zs ! i\<bar> + int (calls_on i cs) \<le> 2 ^ 53"
    by (simp_all add: length_int_call)
  from Cons.IH [OF 1 2] show ?case by (simp add: length_int_call)
qed


lemma sum_list_int_update:
  fixes zs :: "int list"
  assumes "j < length zs"
  shows "sum_list (zs[j := x]) = sum_list zs + x - zs ! j"
  using assms
proof (induction zs arbitrary: j)
  case Nil
  then show ?case by simp
next
  case (Cons z zs)
  then show ?case by (cases j) simp_all
qed

lemma sum_list_abs_update:
  fixes zs :: "int list"
  assumes "j < length zs"
  shows "sum_list (map abs (zs[j := x])) = sum_list (map abs zs) + \<bar>x\<bar> - \<bar>zs ! j\<bar>"
  using assms by (simp add: map_update sum_list_int_update)

lemma op_delta_count:
  "op_delta (snd c) = int (count_op Inc [c]) - int (count_op Dec [c])"
  by (cases "snd c") (simp_all add: op_delta_def count_op_def)

lemma count_op_Cons: "count_op opr (c # cs) = count_op opr [c] + count_op opr cs"
  by (simp add: count_op_def)

lemma fold_int_call_sum:
  assumes "\<forall>c \<in> set cs. fst c < length zs"
  shows "sum_list (fold int_call cs zs) = sum_list zs + int (count_op Inc cs) - int (count_op Dec cs)
    \<and> sum_list (map abs (fold int_call cs zs)) \<le> sum_list (map abs zs) + int (length cs)"
  using assms
proof (induction cs arbitrary: zs)
  case Nil
  then show ?case by (simp add: count_op_def)
next
  case (Cons c cs)
  then have v: "fst c < length zs" by simp
  from Cons.prems have "\<forall>c \<in> set cs. fst c < length (int_call c zs)"
    by (simp add: length_int_call)
  then have "\<forall>d \<in> set cs. fst d < length (int_call c zs)"
    by (simp add: length_int_call)
  from Cons.IH [OF this]
  have ih1: "sum_list (fold int_call cs (int_call c zs))
      = sum_list (int_call c zs) + int (count_op Inc cs) - int (count_op Dec cs)"
    and ih2: "sum_list (map abs (fold int_call cs (int_call c zs)))
      \<le> sum_list (map abs (int_call c zs)) + int (length cs)"
    by simp_all
  have s1: "sum_list (int_call c zs) = sum_list zs + op_delta (snd c)"
    using v by (simp add: int_call_def sum_list_int_update)
  have d: "\<bar>op_delta (snd c)\<bar> = 1"
    by (cases "snd c") (simp_all add: op_delta_def)
  have s2: "sum_list (map abs (int_call c zs)) \<le> sum_list (map abs zs) + 1"
    using v d by (simp add: int_call_def sum_list_abs_update)
  from ih1 s1 have "sum_list (fold int_call (c # cs) zs)
      = sum_list zs + int (count_op Inc (c # cs)) - int (count_op Dec (c # cs))"
    by (simp add: op_delta_count count_op_Cons [of _ c cs])
  moreover from ih2 s2 have "sum_list (map abs (fold int_call (c # cs) zs))
      \<le> sum_list (map abs zs) + int (length (c # cs))"
    by simp
  ultimately show ?case by blast
qed

lemma sum_list_replicate_zero: "sum_list (replicate N (0::int)) = 0"
  by (induction N) simp_all

lemma calls_on_le_length: "calls_on i cs \<le> length cs"
  by (simp add: calls_on_def)

lemma sum_list_mset_cong:
  fixes xs ys :: "int list"
  assumes "mset xs = mset ys"
  shows "sum_list xs = sum_list ys"
  using assms by (metis sum_mset_sum_list)

lemma run_calls_refines:
  assumes "\<forall>i < N. calls_on i calls \<le> 2 ^ 53"
  shows "map data (run_calls calls N nm hp :: double GaugeVar list)
      = map double_of_int (fold int_call calls (replicate N 0))
    \<and> (\<forall>z \<in> set (fold int_call calls (replicate N 0)). \<bar>z\<bar> \<le> 2 ^ 53)"
proof -
  let ?zs = "fold int_call calls (replicate N 0)"
  have 1: "map data (replicate N (GaugeVar_new nm hp :: double GaugeVar))
      = map double_of_int (replicate N 0)"
    by (simp add: GaugeVar_new_def double_of_int_0)
  have 2: "\<forall>i < length (replicate N (0::int)).
      \<bar>replicate N (0::int) ! i\<bar> + int (calls_on i calls) \<le> 2 ^ 53"
    using assms by auto
  from fold_apply_call_refines [OF 1 2]
  have m: "map data (run_calls calls N nm hp :: double GaugeVar list) = map double_of_int ?zs"
    and b: "\<forall>i < N. \<bar>?zs ! i\<bar> \<le> 2 ^ 53"
    by (simp_all add: run_calls_def)
  have "length ?zs = N"
    by (induction calls rule: rev_induct) (simp_all add: length_int_call)
  with b have "\<forall>z \<in> set ?zs. \<bar>z\<bar> \<le> 2 ^ 53"
    by (metis in_set_conv_nth)
  with m show ?thesis by blast
qed

lemma aggregate_permuted:
  fixes gs gs0 :: "double GaugeVar list"
  assumes m: "map data gs0 = map double_of_int zs"
    and b: "\<forall>z \<in> set zs. \<bar>z\<bar> \<le> 2 ^ 53"
    and s: "sum_list (map abs zs) \<le> 2 ^ 53"
    and p: "mset gs = mset gs0"
  shows "data (aggregate gs (GaugeVar_new nm hp)) = double_of_int (sum_list zs)"
proof -
  let ?f = "\<lambda>g. floor_double (data g)"
  let ?zs' = "map ?f gs"
  have inv: "map floor_double (map double_of_int zs) = zs"
    using b by (simp add: map_idI floor_double_of_int)
  have "mset ?zs' = image_mset ?f (mset gs0)"
    using p by (metis mset_map)
  also have "\<dots> = mset (map floor_double (map data gs0))"
    by (simp add: comp_def)
  also have "\<dots> = mset zs"
    by (simp only: m inv)
  finally have pz: "mset ?zs' = mset zs" .
  then have sz: "sum_list ?zs' = sum_list zs"
    by (rule sum_list_mset_cong)
  from pz have "mset (map abs ?zs') = mset (map abs zs)"
    by (metis mset_map)
  then have sa: "sum_list (map abs ?zs') = sum_list (map abs zs)"
    by (rule sum_list_mset_cong)
  have "data g = double_of_int (?f g)" if "g \<in> set gs" for g
  proof -
    from that p have "g \<in> set gs0" by (metis mset_eq_setD)
    then have "data g \<in> set (map double_of_int zs)"
      unfolding m [symmetric] by simp
    then obtain z where "z \<in> set zs" and "data g = double_of_int z" by auto
    with b show ?thesis by (simp add: floor_double_of_int)
  qed
  then have md: "map data gs = map double_of_int ?zs'"
    by simp
  have "\<bar>0\<bar> + sum_list (map abs ?zs') \<le> 2 ^ 53"
    using s sa by simp
  from fold_plus_double_of_int [OF this]
  have "fold (\<lambda>x a. a + x) (map data gs) (double_of_int 0) = double_of_int (sum_list ?zs')"
    by (simp only: md) simp
  then show ?thesis
    by (simp add: aggregate_data GaugeVar_new_def double_of_int_0 sz)
qed

lemma calls_on_replicate: "calls_on i (replicate k c) = (if fst c = i then k else 0)"
  by (induction k) (simp_all add: calls_on_def)

lemma calls_on_append: "calls_on i (xs @ ys) = calls_on i xs + calls_on i ys"
  by (simp add: calls_on_def)

lemma count_op_replicate: "count_op opr (replicate k c) = (if snd c = opr then k else 0)"
  by (induction k) (simp_all add: count_op_def)

lemma count_op_append: "count_op opr (xs @ ys) = count_op opr xs + count_op opr ys"
  by (simp add: count_op_def)

lemma fold_int_call_replicate:
  "fold int_call (replicate k (0, Inc)) (z # zs) = (z + int k) # zs"
  by (induction k arbitrary: z) (simp_all add: int_call_def op_delta_def)

lemma dadd_positive:
  assumes "0 < a + b"
  shows "dadd (Finite False a) (Finite False b) = round_double False (a + b)"
proof -
  have "signed False a + signed False b = int (a + b)"
    by (simp add: signed_def)
  moreover have "int (a + b) \<noteq> 0" "\<not> int (a + b) < 0" "nat \<bar>int (a + b)\<bar> = a + b"
    using assms by (simp_all only: of_nat_eq_0_iff of_nat_less_0_iff abs_of_nat nat_int) simp_all
  ultimately show ?thesis
    by (simp only: dadd.simps Let_def if_False)
qed

lemma double_tie: "double_of_int (2 ^ 53) + double_of_int 1 = double_of_int (2 ^ 53)"
proof -
  have x: "(2::nat) ^ 53 * 2 ^ unit_exp + 2 ^ unit_exp = (2 ^ 53 + 1) * 2 ^ unit_exp"
    by (simp only: distrib_right mult_1)
  have lt: "(2::nat) ^ 53 * 2 ^ unit_exp < 2 ^ (emax + unit_exp)"
    by (simp only: power_add [symmetric]) (rule power_strict_increasing, simp_all add: emax_def)
  have "dadd (Finite False (2 ^ 53 * 2 ^ unit_exp)) (Finite False (2 ^ unit_exp))
      = Finite False (2 ^ 53 * 2 ^ unit_exp)"
    using lt by (subst dadd_positive) (simp_all only: x round_double_def round53_tie Let_def, simp_all)
  then show ?thesis
    by (simp add: double_of_int_exact plus_double_def)
qed

lemma double_above_2_53:
  "double_of_int 2 + double_of_int (2 ^ 53) = Finite False ((2 ^ 53 + 2) * 2 ^ unit_exp)"
proof -
  let ?n = "(2 ^ 53 + 2) * 2 ^ unit_exp :: nat"
  have x: "2 * 2 ^ unit_exp + 2 ^ 53 * 2 ^ unit_exp = ?n"
    by (simp only: distrib_right add.commute)
  have "floorlog 2 (2 ^ 53 + 2 :: nat) \<le> 54"
    by (rule floorlog_leI) simp_all
  moreover have "floorlog 2 ?n = floorlog 2 (2 ^ 53 + 2 :: nat) + unit_exp"
    by (rule floorlog_power) simp_all
  ultimately have "floorlog 2 ?n - 53 \<le> unit_exp + 1"
    by simp
  then have "(2::nat) ^ (floorlog 2 ?n - 53) dvd 2 ^ (unit_exp + 1)"
    by (rule le_imp_power_dvd)
  moreover have "(2::nat) ^ (unit_exp + 1) dvd ?n"
  proof -
    have "(2::nat) dvd 2 ^ 53 + 2" by simp
    then have "(2::nat) * 2 ^ unit_exp dvd (2 ^ 53 + 2) * 2 ^ unit_exp" by (rule mult_dvd_mono) simp
    then show ?thesis by simp
  qed
  ultimately have "2 ^ (floorlog 2 ?n - 53) dvd ?n"
    by (rule dvd_trans)
  then have r: "round53 ?n = ?n"
    by (rule round53_exact)
  have "?n < 2 ^ 54 * 2 ^ unit_exp" by simp
  also have "\<dots> = (2::nat) ^ (54 + unit_exp)" by (simp only: power_add)
  also have "\<dots> < 2 ^ (emax + unit_exp)" by (rule power_strict_increasing) (simp_all add: emax_def)
  finally have lt: "?n < 2 ^ (emax + unit_exp)" .
  have "dadd (Finite False (2 * 2 ^ unit_exp)) (Finite False (2 ^ 53 * 2 ^ unit_exp)) = Finite False ?n"
    using lt by (subst dadd_positive) (simp_all only: x round_double_def r Let_def, simp_all)
  then show ?thesis
    by (simp add: double_of_int_exact plus_double_def)
qed


lemma run_calls_skewed:
  "map data (run_calls (replicate (2 ^ 53) (0, Inc) @ [(1, Inc), (2, Inc)]) 3 nm hp
      :: double GaugeVar list)
    = [double_of_int (2 ^ 53), double_of_int 1, double_of_int 1]"
proof -
  let ?calls = "replicate (2 ^ 53) (0, Inc) @ [(1, Inc), (2, Inc)] :: (nat \<times> gauge_op) list"
  have "\<forall>i < 3. calls_on i ?calls \<le> 2 ^ 53"
    by (simp add: calls_on_append calls_on_replicate) (simp add: calls_on_def)
  from run_calls_refines [OF this]
  have "map data (run_calls ?calls 3 nm hp :: double GaugeVar list)
      = map double_of_int (fold int_call ?calls (replicate 3 0))"
    by blast
  moreover have "replicate 3 (0::int) = [0, 0, 0]"
    by (simp add: numeral_3_eq_3)
  moreover have "fold int_call ?calls [0, 0, 0] = [2 ^ 53, 1, 1]"
  proof -
    have "fold int_call (replicate (2 ^ 53) (0, Inc)) [0, 0, 0] = [2 ^ 53, 0, 0]"
      by (simp only: fold_int_call_replicate) simp
    then have "fold int_call ?calls [0, 0, 0] = fold int_call [(1, Inc), (2, Inc)] [2 ^ 53, 0, 0]"
      by (simp only: fold_append comp_apply)
    also have "\<dots> = [2 ^ 53, 1, 1]"
      by (simp add: int_call_def op_delta_def)
    finally show ?thesis .
  qed
  ultimately show ?thesis
    by simp
qed

text \<open>
  Claim C3 asks that for every sequence of \<^verbatim>\<open>increase\<close> and \<^verbatim>\<open>decrease\<close> calls on \<open>N\<close>
  gauges the aggregate be exactly the number of increases minus the number of decreases,
  in every order of reduction.  A \<^verbatim>\<open>double\<close> has 53 significant bits.  Take three gauges,
  \<open>2 ^ 53\<close> increases on the first and one on each of the others: reduced in this order the
  aggregate is \<open>2 ^ 53\<close> (each \<open>2 ^ 53 + 1\<close> is a tie and rounds to even), reduced in the
  reverse order it is \<open>2 ^ 53 + 2\<close>, the number of increases.
\<close>

theorem gauge_aggregate_counterexample:
  "valof (GaugeVar_get (aggregate
      (run_calls (replicate (2 ^ 53) (0, Inc) @ [(1, Inc), (2, Inc)]) 3 ''qps'' ''queries'')
      (GaugeVar_new ''qps'' ''queries'' :: double GaugeVar))) = Some (2 ^ 53)
   \<and> valof (GaugeVar_get (aggregate
      (rev (run_calls (replicate (2 ^ 53) (0, Inc) @ [(1, Inc), (2, Inc)]) 3 ''qps'' ''queries''))
      (GaugeVar_new ''qps'' ''queries'' :: double GaugeVar))) = Some (2 ^ 53 + 2)
   \<and> real (count_op Inc (replicate (2 ^ 53) (0, Inc) @ [(1, Inc), (2, Inc)]))
      - real (count_op Dec (replicate (2 ^ 53) (0, Inc) @ [(1, Inc), (2, Inc)])) = 2 ^ 53 + 2"
proof -
  let ?gs = "run_calls (replicate (2 ^ 53) (0, Inc) @ [(1, Inc), (2, Inc)]) 3 ''qps'' ''queries''
    :: double GaugeVar list"
  let ?acc = "GaugeVar_new ''qps'' ''queries'' :: double GaugeVar"
  have z: "data ?acc = double_of_int 0"
    by (simp add: GaugeVar_new_def double_of_int_0)
  have a: "double_of_int 0 + double_of_int (2 ^ 53) = double_of_int (2 ^ 53)"
    using double_of_int_plus [of 0 "2 ^ 53"] by simp
  have b: "double_of_int 0 + double_of_int 1 = double_of_int 1"
    using double_of_int_plus [of 0 1] by simp
  have c: "double_of_int 1 + double_of_int 1 = double_of_int 2"
    using double_of_int_plus [of 1 1] by simp
  have "data (aggregate ?gs ?acc) = double_of_int (2 ^ 53)"
    by (simp only: aggregate_data run_calls_skewed z fold_simps a double_tie)
  then have 1: "valof (GaugeVar_get (aggregate ?gs ?acc)) = Some (2 ^ 53)"
    using valof_double_of_int [of "2 ^ 53"] by (simp add: GaugeVar_get_def)
  have "data (aggregate (rev ?gs) ?acc) = Finite False ((2 ^ 53 + 2) * 2 ^ unit_exp)"
    by (simp only: aggregate_data rev_map [symmetric] run_calls_skewed z rev.simps append.simps
          fold_simps b c double_above_2_53)
  then have 2: "valof (GaugeVar_get (aggregate (rev ?gs) ?acc)) = Some (2 ^ 53 + 2)"
    by (simp add: GaugeVar_get_def valof_def)
  have 3: "real (count_op Inc (replicate (2 ^ 53) (0, Inc) @ [(1, Inc), (2, Inc)]))
      - real (count_op Dec (replicate (2 ^ 53) (0, Inc) @ [(1, Inc), (2, Inc)])) = 2 ^ 53 + 2"
    by (simp add: count_op_append count_op_replicate) (simp add: count_op_def)
  from 1 2 3 show ?thesis by blast
qed

text \<open>
  Claim C3, amended.  For every sequence of at most \<open>2 ^ 53\<close> \<^verbatim>\<open>increase\<close> and
  \<^verbatim>\<open>decrease\<close> calls distributed over \<open>N\<close> fresh gauges, reducing the gauges in any order
  into a fresh gauge yields exactly the number of increases minus the number of decreases.
\<close>

theorem gauge_aggregate_exact:
  fixes gs :: "double GaugeVar list"
  assumes "length calls \<le> 2 ^ 53"
    and "\<forall>c \<in> set calls. fst c < N"
    and "mset gs = mset (run_calls calls N nm hp)"
  shows "GaugeVar_get (aggregate gs (GaugeVar_new nm hp))
      = double_of_int (int (count_op Inc calls) - int (count_op Dec calls))
    \<and> valof (GaugeVar_get (aggregate gs (GaugeVar_new nm hp)))
      = Some (real (count_op Inc calls) - real (count_op Dec calls))"
proof -
  let ?zs = "fold int_call calls (replicate N 0)"
  let ?n = "int (count_op Inc calls) - int (count_op Dec calls)"
  have "\<forall>i < N. calls_on i calls \<le> 2 ^ 53"
    using assms(1) calls_on_le_length le_trans by blast
  from run_calls_refines [OF this]
  have m: "map data (run_calls calls N nm hp :: double GaugeVar list) = map double_of_int ?zs"
    and b: "\<forall>z \<in> set ?zs. \<bar>z\<bar> \<le> 2 ^ 53"
    by blast+
  from assms(2) have "\<forall>c \<in> set calls. fst c < length (replicate N (0::int))"
    by simp
  from fold_int_call_sum [OF this]
  have sum: "sum_list ?zs = ?n"
    and abs: "sum_list (map abs ?zs) \<le> int (length calls)"
    by (simp_all add: sum_list_replicate_zero)
  from assms(1) have li: "int (length calls) \<le> 2 ^ 53"
    by simp
  from abs li have s: "sum_list (map abs ?zs) \<le> 2 ^ 53"
    by (rule order_trans)
  have d: "data (aggregate gs (GaugeVar_new nm hp)) = double_of_int ?n"
    using aggregate_permuted [OF m b s assms(3)] sum by simp
  have "count_op Inc calls \<le> length calls" "count_op Dec calls \<le> length calls"
    by (simp_all add: count_op_def)
  then have "\<bar>?n\<bar> \<le> int (length calls)"
    by linarith
  from this li have "\<bar>?n\<bar> \<le> 2 ^ 53"
    by (rule order_trans)
  then have "valof (double_of_int ?n) = Some (of_int ?n)"
    by (rule valof_double_of_int)
  with d show ?thesis
    by (simp add: GaugeVar_get_def)
qed

theorem gauge_aggregate_exact_witness:
  "valof (GaugeVar_get (aggregate
      (rev (run_calls [(0, Inc), (1, Inc), (0, Dec), (1, Inc)] 2 ''qps'' ''queries''))
      (GaugeVar_new ''qps'' ''queries'' :: double GaugeVar))) = Some 2"
  using gauge_aggregate_exact [of "[(0, Inc), (1, Inc), (0, Dec), (1, Inc)]" 2
      "rev (run_calls [(0, Inc), (1, Inc), (0, Dec), (1, Inc)] 2 ''qps'' ''queries'')"
      "''qps''" "''queries''"]
  by (simp add: count_op_def valof_double_of_int)

end
